theory Spec2Isabelle
  imports Main "HOL-Library.Sublist"
begin

section \<open>JavaScript values used by the sources\<close>

text \<open>
  A JavaScript string is modelled by the bytes of its UTF-8 encoding (\<open>string\<close>). The
  characters the sources search for (\<open>/\<close>, \<open>%\<close>, the letters of \<open>embed:/\<close> and
  \<open>output/\<close>) are ASCII, and an ASCII byte never occurs inside a multi-byte UTF-8
  sequence, so searching and cutting at them gives the same substrings as on UTF-16 code
  units. A property that may be \<open>undefined\<close> is a \<open>string option\<close>.

  The exceptions the server-side sources can meet are the values of \<open>error\<close>.
\<close>

datatype error =
    URIError
  | TypeError
  | SyntaxError
  | FetchError string
  | ArchiveError

text \<open>\<open>String(x)\<close> for a property that may be missing.\<close>

definition ToString :: "string option \<Rightarrow> string" where
  "ToString v = (case v of None \<Rightarrow> ''undefined'' | Some s \<Rightarrow> s)"

subsection \<open>String.prototype.indexOf, lastIndexOf, includes, slice, replace\<close>

text \<open>
  \<open>s.indexOf(t)\<close> is the least position at which \<open>t\<close> starts in \<open>s\<close>,
  \<open>s.lastIndexOf(t)\<close> the greatest one, and \<open>-1\<close> when there is none.
\<close>

definition occurrences :: "string \<Rightarrow> string \<Rightarrow> nat list" where
  "occurrences s t = filter (\<lambda>i. prefix t (drop i s)) [0..<Suc (length s)]"

definition indexOf :: "string \<Rightarrow> string \<Rightarrow> int" where
  "indexOf s t = (case occurrences s t of [] \<Rightarrow> - 1 | i # _ \<Rightarrow> int i)"

definition lastIndexOf :: "string \<Rightarrow> string \<Rightarrow> int" where
  "lastIndexOf s t = (case rev (occurrences s t) of [] \<Rightarrow> - 1 | i # _ \<Rightarrow> int i)"

definition includes_str :: "string \<Rightarrow> string \<Rightarrow> bool" where
  "includes_str s t = (indexOf s t \<noteq> - 1)"

text \<open>
  \<open>s.slice(a, b)\<close>: a negative index counts from the end, both are clamped to the
  string, and an empty span gives the empty string. \<open>s.slice(a)\<close> runs to the end.
\<close>

definition slice :: "string \<Rightarrow> int \<Rightarrow> int \<Rightarrow> string" where
  "slice s a b =
     (let n = int (length s);
          start = (if a < 0 then max (n + a) 0 else min a n);
          stop = (if b < 0 then max (n + b) 0 else min b n)
      in take (nat (stop - start)) (drop (nat start) s))"

definition slice_from :: "string \<Rightarrow> int \<Rightarrow> string" where
  "slice_from s a = slice s a (int (length s))"

text \<open>\<open>s.replace(/^output\//, '')\<close>: the anchored pattern can only match at the start.\<close>

definition replace_output_prefix :: "string \<Rightarrow> string" where
  "replace_output_prefix s =
     (if prefix ''output/'' s then drop (length ''output/'') s else s)"

subsection \<open>encodeURIComponent and decodeURIComponent\<close>

text \<open>
  \<open>encodeURIComponent\<close> keeps the unreserved characters and writes every other byte of
  the UTF-8 encoding as \<open>%XX\<close> with upper-case hexadecimal digits.
\<close>

definition uri_unreserved :: "char \<Rightarrow> bool" where
  "uri_unreserved c =
     (c \<in> set (''ABCDEFGHIJKLMNOPQRSTUVWXYZabcdefghijklmnopqrstuvwxyz0123456789-_.!~*()''
               @ [CHR 0x27]))"

definition hex_digit :: "nat \<Rightarrow> char" where
  "hex_digit n = ''0123456789ABCDEF'' ! (n mod 16)"

definition encode_char :: "char \<Rightarrow> string" where
  "encode_char c =
     (if uri_unreserved c then [c]
      else [CHR ''%'', hex_digit (of_char c div 16), hex_digit (of_char c mod 16)])"

definition encodeURIComponent :: "string \<Rightarrow> string" where
  "encodeURIComponent s = concat (map encode_char s)"

text \<open>
  \<open>decodeURIComponent\<close> follows the Decode operation of ECMAScript: a \<open>%\<close> must be
  followed by two hexadecimal digits; an octet below 128 is the character itself; an
  octet with 2, 3 or 4 leading one bits opens a sequence of that many escapes, which
  must be the UTF-8 encoding of a code point; everything else is a \<open>URIError\<close>.
\<close>

definition hex_value :: "char \<Rightarrow> nat option" where
  "hex_value c =
     (let n = (of_char c :: nat) in
      if 48 \<le> n \<and> n \<le> 57 then Some (n - 48)
      else if 65 \<le> n \<and> n \<le> 70 then Some (n - 55)
      else if 97 \<le> n \<and> n \<le> 102 then Some (n - 87)
      else None)"

fun ParseHexOctet :: "string \<Rightarrow> nat option" where
  "ParseHexOctet (a # b # _) =
     (case hex_value a of None \<Rightarrow> None
      | Some x \<Rightarrow> (case hex_value b of None \<Rightarrow> None | Some y \<Rightarrow> Some (16 * x + y)))"
| "ParseHexOctet _ = None"

definition leading_ones :: "nat \<Rightarrow> nat" where
  "leading_ones b =
     (if b < 128 then 0 else if b < 192 then 1 else if b < 224 then 2
      else if b < 240 then 3 else if b < 248 then 4 else 5)"

definition continuation :: "nat \<Rightarrow> bool" where
  "continuation b = (128 \<le> b \<and> b \<le> 191)"

fun valid_utf8 :: "nat list \<Rightarrow> bool" where
  "valid_utf8 [a, b] = (194 \<le> a \<and> a \<le> 223 \<and> continuation b)"
| "valid_utf8 [a, b, c] =
     (((a = 224 \<and> 160 \<le> b \<and> b \<le> 191) \<or> (225 \<le> a \<and> a \<le> 236 \<and> continuation b)
       \<or> (a = 237 \<and> 128 \<le> b \<and> b \<le> 159) \<or> (238 \<le> a \<and> a \<le> 239 \<and> continuation b))
      \<and> continuation c)"
| "valid_utf8 [a, b, c, d] =
     (((a = 240 \<and> 144 \<le> b \<and> b \<le> 191) \<or> (241 \<le> a \<and> a \<le> 243 \<and> continuation b)
       \<or> (a = 244 \<and> 128 \<le> b \<and> b \<le> 143))
      \<and> continuation c \<and> continuation d)"
| "valid_utf8 _ = False"

definition emit :: "string \<Rightarrow> error + string \<Rightarrow> error + string" where
  "emit cs r = (case r of Inl e \<Rightarrow> Inl e | Inr s \<Rightarrow> Inr (cs @ s))"

text \<open>
  \<open>Decode octs need s\<close> reads the rest \<open>s\<close> of the input; \<open>octs\<close> are the octets of an
  open multi-byte sequence that still lacks \<open>need\<close> escapes.
\<close>

fun Decode :: "nat list \<Rightarrow> nat \<Rightarrow> string \<Rightarrow> error + string" where
  "Decode octs need [] = (if need = 0 then Inr [] else Inl URIError)"
| "Decode octs need (c # s) =
     (if need = 0 then
        (if c \<noteq> CHR ''%'' then emit [c] (Decode [] 0 s)
         else (case ParseHexOctet s of
                 None \<Rightarrow> Inl URIError
               | Some b \<Rightarrow>
                   (let n = leading_ones b in
                    if n = 0 then emit [char_of b] (Decode [] 0 (drop 2 s))
                    else if n = 1 \<or> 4 < n then Inl URIError
                    else Decode [b] (n - 1) (drop 2 s))))
      else
        (if c \<noteq> CHR ''%'' then Inl URIError
         else (case ParseHexOctet s of
                 None \<Rightarrow> Inl URIError
               | Some b \<Rightarrow>
                   (if need = 1 then
                      (if valid_utf8 (octs @ [b])
                       then emit (map char_of (octs @ [b])) (Decode [] 0 (drop 2 s))
                       else Inl URIError)
                    else Decode (octs @ [b]) (need - 1) (drop 2 s)))))"

definition decodeURIComponent :: "string option \<Rightarrow> error + string" where
  "decodeURIComponent encodedURN = Decode [] 0 (ToString encodedURN)"

section \<open>The manifest resolver (server side)\<close>

subsection \<open>getPathInfo\<close>

record pathinfo =
  urn :: string
  rootFileName :: string
  localPath :: string
  basePath :: string

definition getPathInfo :: "string option \<Rightarrow> error + pathinfo" where
  "getPathInfo encodedURN =
     (case decodeURIComponent encodedURN of
        Inl e \<Rightarrow> Inl e
      | Inr u \<Rightarrow>
          (let rootFileName = slice_from u (lastIndexOf u ''/'' + 1);
               basePath = slice u 0 (lastIndexOf u ''/'' + 1);
               localPath =
                 replace_output_prefix (slice_from basePath (indexOf basePath ''/'' + 1))
           in Inr \<lparr>urn = u, rootFileName = rootFileName,
                    localPath = localPath, basePath = basePath\<rparr>))"

subsection \<open>parseManifest\<close>

text \<open>
  A manifest node as the design-data service sends it: every property may be missing.
  \<open>if (node.children)\<close> skips a missing list; an empty array is truthy and its
  \<open>forEach\<close> calls nothing.
\<close>

datatype node =
  Node (role: "string option") (node_guid: "string option") (node_mime: "string option")
       (node_urn: "string option") (children: "node list option")

record manifest =
  derivatives :: "node list option"

text \<open>\<open>Object.assign({}, {guid, mime}, getPathInfo(node.urn))\<close>.\<close>

record item = pathinfo +
  guid :: "string option"
  mime :: "string option"

definition roles :: "string list" where
  "roles =
     [''Autodesk.CloudPlatform.DesignDescription'',
      ''Autodesk.CloudPlatform.PropertyDatabase'',
      ''Autodesk.CloudPlatform.IndexableContent'',
      ''leaflet-zip'',
      ''thumbnail'',
      ''graphics'',
      ''preview'',
      ''raas'',
      ''pdf'',
      ''lod'']"

text \<open>\<open>roles.includes(node.role)\<close>: a missing role is \<open>undefined\<close>, which is no element.\<close>

definition roles_includes :: "string option \<Rightarrow> bool" where
  "roles_includes r = (case r of None \<Rightarrow> False | Some x \<Rightarrow> x \<in> set roles)"

definition make_item :: "string option \<Rightarrow> string option \<Rightarrow> pathinfo \<Rightarrow> item" where
  "make_item g m p =
     \<lparr>urn = urn p, rootFileName = rootFileName p, localPath = localPath p,
      basePath = basePath p, guid = g, mime = m\<rparr>"

text \<open>
  The closure \<open>parse\<close> pushes onto the captured array \<open>items\<close>; the array is passed
  along and returned. An exception of \<open>getPathInfo\<close> leaves \<open>parse\<close>, the enclosing
  \<open>forEach\<close> calls and \<open>parseManifest\<close>.
\<close>

fun parse :: "node \<Rightarrow> item list \<Rightarrow> error + item list"
  and forEach_parse :: "node list \<Rightarrow> item list \<Rightarrow> error + item list" where
  "parse (Node r g m u ch) items =
     (case (if roles_includes r
            then (case getPathInfo u of
                    Inl e \<Rightarrow> Inl e
                  | Inr p \<Rightarrow> Inr (items @ [make_item g m p]))
            else Inr items) of
        Inl e \<Rightarrow> Inl e
      | Inr items' \<Rightarrow>
          (case ch of None \<Rightarrow> Inr items' | Some cs \<Rightarrow> forEach_parse cs items'))"
| "forEach_parse [] items = Inr items"
| "forEach_parse (c # cs) items =
     (case parse c items of Inl e \<Rightarrow> Inl e | Inr items' \<Rightarrow> forEach_parse cs items')"

definition parseManifest :: "manifest \<Rightarrow> error + item list" where
  "parseManifest m = parse (Node None None None None (derivatives m)) []"

text \<open>
  For the statements about the resolver: the nodes of a manifest in document order
  (a node before its children, children left to right).
\<close>

fun nodes_of :: "node \<Rightarrow> node list"
  and nodes_of_list :: "node list \<Rightarrow> node list" where
  "nodes_of (Node r g m u ch) =
     Node r g m u ch # (case ch of None \<Rightarrow> [] | Some cs \<Rightarrow> nodes_of_list cs)"
| "nodes_of_list [] = []"
| "nodes_of_list (c # cs) = nodes_of c @ nodes_of_list cs"

definition manifest_nodes :: "manifest \<Rightarrow> node list" where
  "manifest_nodes m = (case derivatives m of None \<Rightarrow> [] | Some ds \<Rightarrow> nodes_of_list ds)"

definition matching_nodes :: "manifest \<Rightarrow> node list" where
  "matching_nodes m = filter (\<lambda>n. roles_includes (role n)) (manifest_nodes m)"

section \<open>The derivative file enumerator (server side)\<close>

text \<open>
  What the derivative service returns for a URL is a \<open>blob\<close>: a ZIP archive (its members
  by name), a gzip stream (its content), or bytes that are neither. A member or stream
  content either is the JSON text of an object, of which only \<open>assets\<close> is read, or is
  not JSON. The service is a function of the URL and the \<open>Authorization\<close> header; a
  network failure is an error.
\<close>

record asset =
  URI :: string

record asset_manifest =
  assets :: "asset list option"

datatype content = JsonObject asset_manifest | NotJson

datatype blob =
    ZipArchive "string \<Rightarrow> content option"
  | GzipStream content
  | OtherBytes

type_synonym derivative_service = "string \<Rightarrow> string \<Rightarrow> error + blob"

definition BaseUrl :: string where
  "BaseUrl = ''https://developer.api.autodesk.com''"

definition JSON_parse :: "content \<Rightarrow> error + asset_manifest" where
  "JSON_parse t = (case t of JsonObject m \<Rightarrow> Inr m | NotJson \<Rightarrow> Inl SyntaxError)"

text \<open>\<open>new zip(data, ...)\<close> and \<open>zlib.gunzipSync(data)\<close> throw on other data.\<close>

definition new_zip :: "blob \<Rightarrow> error + (string \<Rightarrow> content option)" where
  "new_zip data = (case data of ZipArchive fs \<Rightarrow> Inr fs | _ \<Rightarrow> Inl ArchiveError)"

definition gunzipSync :: "blob \<Rightarrow> error + content" where
  "gunzipSync data = (case data of GzipStream t \<Rightarrow> Inr t | _ \<Rightarrow> Inl ArchiveError)"

text \<open>
  The functions that use the network take and return the list of the URLs requested so
  far, so that a function that requests nothing returns the list unchanged.
\<close>

definition getDerivative ::
  "derivative_service \<Rightarrow> string \<Rightarrow> string \<Rightarrow> string list \<Rightarrow> (error + blob) \<times> string list" where
  "getDerivative svc u token requested =
     (let url = BaseUrl @ ''/derivativeservice/v2/derivatives/'' @ encodeURIComponent u
      in (svc url (''Bearer '' @ token), requested @ [url]))"

definition asset_files :: "asset_manifest \<Rightarrow> string list" where
  "asset_files m =
     (case assets m of
        None \<Rightarrow> []
      | Some as \<Rightarrow> filter (\<lambda>uri. indexOf uri ''embed:/'' = - 1) (map URI as))"

definition getDerivativesSVF ::
  "derivative_service \<Rightarrow> string \<Rightarrow> string \<Rightarrow> string list
     \<Rightarrow> (error + string list) \<times> string list" where
  "getDerivativesSVF svc u token requested =
     (case getDerivative svc u token requested of
        (Inl e, requested') \<Rightarrow> (Inl e, requested')
      | (Inr data, requested') \<Rightarrow>
          (case new_zip data of
             Inl e \<Rightarrow> (Inl e, requested')
           | Inr pack \<Rightarrow>
               (case pack ''manifest.json'' of
                  None \<Rightarrow> (Inl TypeError, requested')
                | Some t \<Rightarrow>
                    (case JSON_parse t of
                       Inl e \<Rightarrow> (Inl e, requested')
                     | Inr m \<Rightarrow> (Inr (asset_files m), requested')))))"

definition getDerivativesF2D ::
  "derivative_service \<Rightarrow> item \<Rightarrow> string \<Rightarrow> string list
     \<Rightarrow> (error + string list) \<times> string list" where
  "getDerivativesF2D svc it token requested =
     (let manifestPath = basePath it @ ''manifest.json.gz'' in
      case getDerivative svc manifestPath token requested of
        (Inl e, requested') \<Rightarrow> (Inl e, requested')
      | (Inr data, requested') \<Rightarrow>
          (case gunzipSync data of
             Inl e \<Rightarrow> (Inl e, requested')
           | Inr t \<Rightarrow>
               (case JSON_parse t of
                  Inl e \<Rightarrow> (Inl e, requested')
                | Inr m \<Rightarrow>
                    (Inr (if assets m = None then []
                          else asset_files m @ [''manifest.json.gz'']), requested'))))"

text \<open>The \<open>switch (item.mime)\<close> of the route \<open>/api/models/:urn/files\<close>.\<close>

definition enumerateFiles ::
  "derivative_service \<Rightarrow> string \<Rightarrow> item \<Rightarrow> string list
     \<Rightarrow> (error + string list) \<times> string list" where
  "enumerateFiles svc accessToken it requested =
     (if mime it = Some ''application/autodesk-svf''
        then getDerivativesSVF svc (urn it) accessToken requested
      else if mime it = Some ''application/autodesk-f2d''
        then getDerivativesF2D svc it accessToken requested
      else if mime it = Some ''application/autodesk-db''
        then (Inr [''objects_attrs.json.gz'', ''objects_vals.json.gz'',
                   ''objects_offs.json.gz'', ''objects_ids.json.gz'',
                   ''objects_avs.json.gz'', rootFileName it], requested)
      else (Inr [rootFileName it], requested))"

section \<open>The cache controller (service worker)\<close>

text \<open>
  An entry of the file list that \<open>/api/models/:urn/files\<close> returns:
  \<open>Object.assign({}, item, { files })\<close>.
\<close>

record derivative = item +
  files :: "string list"

text \<open>
  The only thing the worker does with an exception is \<open>err.toString()\<close>, so a thrown
  value is the text that \<open>toString\<close> gives for it (\<open>TypeError: Failed to fetch\<close>).

  A response is kept as it came: its status, the values of its \<open>Vary\<close> header and its
  body. A JSON body is the array of derivatives, or some value that \<open>for ... of\<close> cannot
  iterate (an object, a number, a boolean, \<open>null\<close>).
\<close>

type_synonym thrown = string

datatype json = DerivativeArray "derivative list" | NotIterable

datatype body = Json json | Bytes string

record response =
  status :: nat
  vary :: "string list"
  body :: body

text \<open>
  What the sources leave to the browser is a parameter of the model: the URL serializer
  (relative to the location of the worker; \<open>fetch\<close> addresses the serialized URL and the
  store keys an entry by it), and the exceptions that the engine itself throws: of
  \<open>for ... of\<close> over a value that is not iterable, of \<open>res.json()\<close> on a body that is
  not JSON, of \<open>cache.put\<close> on a response it refuses, and of \<open>postMessage\<close> on a
  missing port.
\<close>

record engine =
  serialize :: "string \<Rightarrow> string"
  not_iterable_error :: thrown
  json_error :: "string \<Rightarrow> thrown"
  put_error :: "response \<Rightarrow> thrown"
  no_port_error :: thrown

text \<open>
  The network is a function of the serialized URL and the \<open>Authorization\<close> header;
  \<open>fetch\<close> rejects on a network failure only, whatever the status of a response.
\<close>

type_synonym network = "string \<Rightarrow> string option \<Rightarrow> thrown + response"

definition fetch :: "engine \<Rightarrow> network \<Rightarrow> string \<Rightarrow> string option \<Rightarrow> thrown + response" where
  "fetch eng net url options = net (serialize eng url) options"

definition res_json :: "engine \<Rightarrow> response \<Rightarrow> thrown + json" where
  "res_json eng res =
     (case body res of Json j \<Rightarrow> Inr j | Bytes bs \<Rightarrow> Inl (json_error eng bs))"

subsection \<open>The cache store\<close>

text \<open>
  The store \<open>aps-disconnected-v4\<close> is the list of its entries, in the order of
  \<open>cache.keys()\<close>; the key of an entry is the serialized URL of its request.
  \<open>cache.put\<close> rejects a response of status 206 and a response whose \<open>Vary\<close> header
  has \<open>*\<close>; otherwise it removes the entries of the URL and appends the new one.
  \<open>cache.delete\<close> removes the entries of the URL.
\<close>

type_synonym cache = "(string \<times> response) list"

definition put_rejected :: "response \<Rightarrow> bool" where
  "put_rejected resp = (status resp = 206 \<or> ''*'' \<in> set (vary resp))"

definition cache_put :: "engine \<Rightarrow> string \<Rightarrow> response \<Rightarrow> cache \<Rightarrow> thrown + cache" where
  "cache_put eng url resp c =
     (if put_rejected resp then Inl (put_error eng resp)
      else Inr (filter (\<lambda>e. fst e \<noteq> serialize eng url) c @ [(serialize eng url, resp)]))"

definition cache_delete :: "string \<Rightarrow> cache \<Rightarrow> cache" where
  "cache_delete url c = filter (\<lambda>e. fst e \<noteq> url) c"

definition cache_keys :: "cache \<Rightarrow> string list" where
  "cache_keys c = map fst c"

subsection \<open>The state of the worker\<close>

text \<open>
  Besides the store, the state records what the statements are about: every message
  posted so far with the port it was posted on; the trace of what happened between the
  worker, the network and the store, in the order in which it happened (a request sent,
  with its serialized URL and its \<open>Authorization\<close> header, or an entry stored under
  its key); and every rejection that no handler took.
\<close>

datatype reply = Ok "string list" | Error string

datatype event = Request string "string option" | Stored string

record worker =
  store :: cache
  posted :: "(nat \<times> reply) list"
  trace :: "event list"
  unhandled :: "thrown list"

subsection \<open>cacheUrn\<close>

text \<open>
  One element of \<open>fetches\<close>:
  \<open>fetch(url, options).then(resp => cache.put(url, resp)).then(() => url)\<close>.
  The request leaves when the promise is pushed; \<open>fetch_put\<close> is what happens when it
  settles: it rejects with the exception of \<open>fetch\<close> or of \<open>cache.put\<close>, or the entry is
  in the store and it fulfils with the URL.
\<close>

definition fetch_put ::
  "engine \<Rightarrow> network \<Rightarrow> string option \<Rightarrow> string \<Rightarrow> cache \<Rightarrow> (thrown + string) \<times> cache" where
  "fetch_put eng net options url c =
     (case fetch eng net url options of
        Inl e \<Rightarrow> (Inl e, c)
      | Inr resp \<Rightarrow>
          (case cache_put eng url resp c of
             Inl e \<Rightarrow> (Inl e, c)
           | Inr c' \<Rightarrow> (Inr url, c')))"

text \<open>
  The pushed promises run at the same time and settle in an order that the timing of the
  network decides. A schedule is any list of numbers: the promises it names settle first,
  in its order, and the others after them in the order of the array; so the schedules
  give every order of the promises and nothing else.
\<close>

definition completion_order :: "nat list \<Rightarrow> nat \<Rightarrow> nat list" where
  "completion_order sched n =
     filter (\<lambda>i. i < n) (remdups sched) @ filter (\<lambda>i. i \<notin> set sched) [0..<n]"

text \<open>
  Every promise that was pushed runs to its end, whether or not another one rejects:
  \<open>settle\<close> takes the promises in their order of completion and gives the outcome of
  each, with its place in the array, and the store after all of them.
\<close>

fun settle ::
  "engine \<Rightarrow> network \<Rightarrow> string option \<Rightarrow> string list \<Rightarrow> nat list \<Rightarrow> cache
     \<Rightarrow> (nat \<times> (thrown + string)) list \<times> cache" where
  "settle eng net options fetches [] c = ([], c)"
| "settle eng net options fetches (i # order) c =
     (case fetch_put eng net options (fetches ! i) c of
        (r, c') \<Rightarrow>
          (case settle eng net options fetches order c' of
             (rs, c'') \<Rightarrow> ((i, r) # rs, c'')))"

text \<open>The rejections among settled promises, in the order in which they happened.\<close>

definition rejections :: "(nat \<times> (thrown + 'a)) list \<Rightarrow> thrown list" where
  "rejections settled =
     concat (map (\<lambda>ir. case snd ir of Inl e \<Rightarrow> [e] | Inr v \<Rightarrow> []) settled)"

text \<open>
  \<open>Promise.all\<close> of \<open>n\<close> promises rejects with the first rejection that happens; when
  every promise fulfils, it fulfils with the values in the order of the array.
\<close>

definition Promise_all :: "nat \<Rightarrow> (nat \<times> (thrown + 'a)) list \<Rightarrow> thrown + 'a list" where
  "Promise_all n settled =
     (case rejections settled of
        e # _ \<Rightarrow> Inl e
      | [] \<Rightarrow>
          Inr (concat (map (\<lambda>i. case map_of settled i of
                                   Some (Inr v) \<Rightarrow> [v]
                                 | _ \<Rightarrow> [])
                           [0..<n])))"

definition baseUrl :: string where
  "baseUrl = ''https://developer.api.autodesk.com/derivativeservice/v2''"

definition derivUrl :: "derivative \<Rightarrow> string" where
  "derivUrl d = baseUrl @ ''/derivatives/'' @ encodeURIComponent (pathinfo.urn d)"

definition fileUrl :: "derivative \<Rightarrow> string \<Rightarrow> string" where
  "fileUrl d file = baseUrl @ ''/derivatives/'' @ encodeURIComponent (basePath d @ file)"

text \<open>The body of the outer loop, and the loop: the URLs pushed onto \<open>fetches\<close>.\<close>

definition push_derivative :: "derivative \<Rightarrow> string list \<Rightarrow> string list" where
  "push_derivative d fetches =
     fold (\<lambda>file fs. fs @ [fileUrl d file]) (files d) (fetches @ [derivUrl d])"

definition push_derivatives :: "derivative list \<Rightarrow> string list \<Rightarrow> string list" where
  "push_derivatives ds fetches = fold push_derivative ds fetches"

text \<open>
  The requests that leave when the promises of a list of URLs are pushed, and the entries
  that settled promises stored, in the order in which they settled.
\<close>

definition sent :: "engine \<Rightarrow> string option \<Rightarrow> string list \<Rightarrow> event list" where
  "sent eng options urls = map (\<lambda>url. Request (serialize eng url) options) urls"

definition stored :: "engine \<Rightarrow> (nat \<times> (thrown + string)) list \<Rightarrow> event list" where
  "stored eng settled =
     concat (map (\<lambda>ir. case snd ir of Inl e \<Rightarrow> [] | Inr url \<Rightarrow> [Stored (serialize eng url)])
               settled)"

text \<open>
  \<open>cacheUrn\<close> awaits the file list, pushes the promise of the manifest, then those of
  the derivatives and their files, and awaits \<open>Promise.all(fetches)\<close>. The loops do not
  await: every request has left before the first promise settles. When the file
  list is not iterable, \<open>for ... of\<close> throws after the promise of the manifest was
  pushed: that promise still settles, and no handler takes its rejection.
\<close>

definition cacheUrn ::
  "engine \<Rightarrow> network \<Rightarrow> nat list \<Rightarrow> string \<Rightarrow> string \<Rightarrow> worker
     \<Rightarrow> (thrown + string list) \<times> worker" where
  "cacheUrn eng net sched u access_token w =
     (let filesUrl = ''/api/models/'' @ u @ ''/files'';
          w1 = w\<lparr>trace := trace w @ sent eng None [filesUrl]\<rparr>
      in case fetch eng net filesUrl None of
           Inl e \<Rightarrow> (Inl e, w1)
         | Inr res \<Rightarrow>
             (case res_json eng res of
                Inl e \<Rightarrow> (Inl e, w1)
              | Inr derivs \<Rightarrow>
                  (let options = Some (''Bearer '' @ access_token);
                       manifestUrl = baseUrl @ ''/manifest/'' @ u
                   in case derivs of
                        NotIterable \<Rightarrow>
                          (case settle eng net options [manifestUrl] [0] (store w1) of
                             (rs, c) \<Rightarrow>
                               (Inl (not_iterable_error eng),
                                w1\<lparr>store := c,
                                   trace := trace w1 @ sent eng options [manifestUrl]
                                              @ stored eng rs,
                                   unhandled := unhandled w1 @ rejections rs\<rparr>))
                      | DerivativeArray ds \<Rightarrow>
                          (let fetches = push_derivatives ds [manifestUrl] in
                           case settle eng net options fetches
                                  (completion_order sched (length fetches)) (store w1) of
                             (rs, c) \<Rightarrow>
                               (Promise_all (length fetches) rs,
                                w1\<lparr>store := c,
                                   trace := trace w1 @ sent eng options fetches
                                              @ stored eng rs\<rparr>)))))"

subsection \<open>clearUrn and listCached\<close>

definition clearUrn :: "string \<Rightarrow> cache \<Rightarrow> string list \<times> cache" where
  "clearUrn u c =
     (let requests = filter (\<lambda>url. includes_str url u) (cache_keys c)
      in (requests, fold cache_delete requests c))"

definition listCached :: "cache \<Rightarrow> string list" where
  "listCached c = cache_keys c"

subsection \<open>messageAsync\<close>

text \<open>
  A message event carries \<open>data\<close> (its \<open>urn\<close> is the field \<open>data_urn\<close>) and the
  transferred ports. \<open>event.ports[0].postMessage\<close> throws when no port came with the
  message.
\<close>

record message_data =
  operation :: string
  data_urn :: string
  access_token :: string

record message_event =
  data :: message_data
  ports :: "nat list"

definition postMessage :: "engine \<Rightarrow> nat list \<Rightarrow> reply \<Rightarrow> worker \<Rightarrow> thrown + worker" where
  "postMessage eng ps msg w =
     (case ps of
        [] \<Rightarrow> Inl (no_port_error eng)
      | p # _ \<Rightarrow> Inr (w\<lparr>posted := posted w @ [(p, msg)]\<rparr>))"

text \<open>
  \<open>try { const urls = await task; post({status: 'ok', urls}) } catch (err) { post({error: err.toString()}) }\<close>:
  an exception of the task or of the first \<open>postMessage\<close> is caught; one of the
  \<open>postMessage\<close> in the handler rejects the promise of \<open>messageAsync\<close>.
\<close>

definition try_reply ::
  "engine \<Rightarrow> nat list \<Rightarrow> thrown + string list \<Rightarrow> worker \<Rightarrow> thrown option \<times> worker" where
  "try_reply eng ps result w =
     (case (case result of Inl err \<Rightarrow> Inl err | Inr urls \<Rightarrow> postMessage eng ps (Ok urls) w) of
        Inr w' \<Rightarrow> (None, w')
      | Inl err \<Rightarrow>
          (case postMessage eng ps (Error err) w of
             Inr w' \<Rightarrow> (None, w')
           | Inl err' \<Rightarrow> (Some err', w)))"

text \<open>
  The first component of the result is the rejection of the promise of
  \<open>messageAsync\<close>, if it rejects; the listener does not await it.
\<close>

definition messageAsync ::
  "engine \<Rightarrow> network \<Rightarrow> nat list \<Rightarrow> message_event \<Rightarrow> worker \<Rightarrow> thrown option \<times> worker" where
  "messageAsync eng net sched event w =
     (if operation (data event) = ''CACHE_URN'' then
        (case cacheUrn eng net sched (data_urn (data event)) (access_token (data event)) w of
           (result, w') \<Rightarrow> try_reply eng (ports event) result w')
      else if operation (data event) = ''CLEAR_URN'' then
        (case clearUrn (data_urn (data event)) (store w) of
           (urls, c) \<Rightarrow> try_reply eng (ports event) (Inr urls) (w\<lparr>store := c\<rparr>))
      else if operation (data event) = ''LIST_CACHES'' then
        try_reply eng (ports event) (Inr (listCached (store w))) w
      else (None, w))"

section \<open>Definitions for the statements\<close>

text \<open>
  The descriptor that a node with a decodable \<open>urn\<close> gives.
\<close>

definition item_of_node :: "node \<Rightarrow> item" where
  "item_of_node n = make_item (node_guid n) (node_mime n) (projr (getPathInfo (node_urn n)))"

text \<open>
  The URLs of a model as the design names them, written out: the manifest URL, then for
  each derivative its own URL and the URL of each of its files under its base path.
\<close>

definition expected_urls :: "string \<Rightarrow> derivative list \<Rightarrow> string list" where
  "expected_urls u ds =
     (''https://developer.api.autodesk.com/derivativeservice/v2/manifest/'' @ u)
       # concat (map (\<lambda>d.
           (''https://developer.api.autodesk.com/derivativeservice/v2/derivatives/''
              @ encodeURIComponent (pathinfo.urn d))
             # map (\<lambda>file.
                 ''https://developer.api.autodesk.com/derivativeservice/v2/derivatives/''
                   @ encodeURIComponent (basePath d @ file)) (files d)) ds)"



definition overlay ::
  "network \<Rightarrow> string option \<Rightarrow> string set \<Rightarrow> (string \<Rightarrow> response option)
     \<Rightarrow> string \<Rightarrow> response option" where
  "overlay net options K m k =
     (case net k options of
        Inl e \<Rightarrow> m k
      | Inr resp \<Rightarrow> if k \<in> K \<and> \<not> put_rejected resp then Some resp else m k)"

text \<open>The URLs whose promises a call of \<open>cacheUrn\<close> pushes.\<close>

definition pushed :: "engine \<Rightarrow> network \<Rightarrow> string \<Rightarrow> string list" where
  "pushed eng net u =
     (case net (serialize eng (''/api/models/'' @ u @ ''/files'')) None of
        Inl e \<Rightarrow> []
      | Inr res \<Rightarrow>
          (case res_json eng res of
             Inl e \<Rightarrow> []
           | Inr NotIterable \<Rightarrow> [baseUrl @ ''/manifest/'' @ u]
           | Inr (DerivativeArray ds) \<Rightarrow> push_derivatives ds [baseUrl @ ''/manifest/'' @ u]))"

subsection \<open>Example inputs\<close>

text \<open>
  A manifest whose only node has a \<open>urn\<close> with a stray \<open>%\<close>, and a manifest whose two
  allow-listed nodes lie below two nodes that are not in the allow-list.
\<close>

definition bad_manifest :: manifest where
  "bad_manifest = \<lparr>derivatives = Some [Node (Some ''graphics'') (Some ''g1'') (Some ''application/autodesk-svf'') (Some ''bucket/output/100%.svf'') None]\<rparr>"

definition nested_manifest :: manifest where
  "nested_manifest =
     \<lparr>derivatives = Some
        [Node None None None None
           (Some [Node (Some ''3d'') (Some ''g0'') None None
                    (Some [Node (Some ''graphics'') (Some ''g1'') (Some ''application/autodesk-svf'')
                             (Some ''bucket%2Foutput/1/model.svf'') None,
                           Node (Some ''thumbnail'') (Some ''g2'') (Some ''image/png'')
                             (Some ''bucket/output/model.png'') (Some [])])])]\<rparr>"

text \<open>
  Two descriptors, an SVF archive whose \<open>manifest.json\<close> lists an image and an embedded
  asset, a service that returns this archive, and a service that is unreachable.
\<close>

definition svf_item :: item where
  "svf_item = \<lparr>urn = ''bucket/output/1/model.svf'', rootFileName = ''model.svf'',
                localPath = ''1/'', basePath = ''bucket/output/1/'',
                guid = Some ''g1'', mime = Some ''application/autodesk-svf''\<rparr>"

definition db_item :: item where
  "db_item = \<lparr>urn = ''bucket/output/model.sdb'', rootFileName = ''model.sdb'',
               localPath = [], basePath = ''bucket/output/'',
               guid = Some ''g3'', mime = Some ''application/autodesk-db''\<rparr>"

definition svf_archive :: "string \<Rightarrow> content option" where
  "svf_archive name =
     (if name = ''manifest.json''
      then Some (JsonObject \<lparr>assets = Some [\<lparr>URI = ''a.png''\<rparr>, \<lparr>URI = ''embed:/b''\<rparr>]\<rparr>)
      else None)"

definition svf_service :: derivative_service where
  "svf_service url authorization = Inr (ZipArchive svf_archive)"

definition offline_service :: derivative_service where
  "offline_service url authorization = Inl (FetchError ''request failed'')"

text \<open>
  An engine whose serializer resolves a path against \<open>https://viewer.example\<close> and
  writes a space as \<open>%20\<close>, as the URL serializer does on the URLs of the examples. A
  network on which the file list of the model \<open>dXJuOm1vZGVs\<close> has one derivative with
  one file, the file list of \<open>broken\<close> is a JSON object, and every other URL is served
  to the bearer of \<open>token\<close> only. A store with one entry of the model and one static
  page; a worker with this store; a task message with one port.
\<close>

definition example_serialize :: "string \<Rightarrow> string" where
  "example_serialize url =
     (if prefix ''/'' url then ''https://viewer.example'' else [])
       @ concat (map (\<lambda>c. if c = CHR '' '' then ''%20'' else [c]) url)"

definition example_engine :: engine where
  "example_engine =
     \<lparr>serialize = example_serialize,
      not_iterable_error = ''TypeError: derivatives is not iterable'',
      json_error = (\<lambda>bs. ''SyntaxError: Unexpected token in JSON''),
      put_error = (\<lambda>resp. ''TypeError: Failed to execute put on Cache''),
      no_port_error = ''TypeError: Cannot read properties of undefined''\<rparr>"

definition example_derivative :: derivative where
  "example_derivative =
     \<lparr>urn = ''bucket/output/1/model.svf'', rootFileName = ''model.svf'',
      localPath = ''1/'', basePath = ''bucket/output/1/'',
      guid = Some ''g1'', mime = Some ''application/autodesk-svf'', files = [''a.png'']\<rparr>"

definition example_network :: network where
  "example_network url authorization =
     (if url = ''https://viewer.example/api/models/dXJuOm1vZGVs/files''
        then Inr \<lparr>status = 200, vary = [], body = Json (DerivativeArray [example_derivative])\<rparr>
      else if url = ''https://viewer.example/api/models/broken/files''
        then Inr \<lparr>status = 200, vary = [], body = Json NotIterable\<rparr>
      else if authorization = Some ''Bearer token''
        then Inr \<lparr>status = 200, vary = [], body = Bytes url\<rparr>
      else Inl ''TypeError: Failed to fetch'')"

definition example_cache :: cache where
  "example_cache =
     [(''https://developer.api.autodesk.com/derivativeservice/v2/manifest/dXJuOm1vZGVs'',
       \<lparr>status = 200, vary = [], body = Bytes ''manifest''\<rparr>),
      (''/index.html'', \<lparr>status = 200, vary = [], body = Bytes ''page''\<rparr>)]"

definition example_worker :: worker where
  "example_worker = \<lparr>store = example_cache, posted = [], trace = [], unhandled = []\<rparr>"

definition example_event :: "string \<Rightarrow> string \<Rightarrow> string \<Rightarrow> message_event" where
  "example_event op u token =
     \<lparr>data = \<lparr>operation = op, data_urn = u, access_token = token\<rparr>, ports = [7]\<rparr>"

section \<open>String search and slicing\<close>

text \<open>\<open>indexOf\<close> and \<open>lastIndexOf\<close> find nothing exactly when there is no occurrence.\<close>

lemma occurrences_empty_iff: "occurrences s t = [] \<longleftrightarrow> \<not> sublist t s"
proof
  assume e: "occurrences s t = []"
  show "\<not> sublist t s"
  proof
    assume "sublist t s"
    then obtain ps ss where s: "s = ps @ t @ ss" by (auto simp: sublist_def)
    have "length ps \<le> length s" using arg_cong [OF s, of length] by simp
    then have "length ps \<in> set [0..<Suc (length s)]" by (simp del: upt_Suc)
    moreover have "prefix t (drop (length ps) s)" using s by simp
    ultimately have "length ps \<in> set (occurrences s t)"
      unfolding occurrences_def set_filter by blast
    with e show False by simp
  qed
next
  assume n: "\<not> sublist t s"
  have "\<not> prefix t (drop i s)" for i
  proof
    assume "prefix t (drop i s)"
    then obtain ss where "drop i s = t @ ss" by (auto simp: prefix_def)
    then have "s = take i s @ t @ ss" by (metis append_take_drop_id)
    then show False using n by (auto simp: sublist_def)
  qed
  then show "occurrences s t = []" unfolding occurrences_def by simp
qed

lemma indexOf_minus_one: "indexOf s t = - 1 \<longleftrightarrow> \<not> sublist t s"
  unfolding indexOf_def using occurrences_empty_iff [of s t]
  by (cases "occurrences s t") auto

lemma lastIndexOf_minus_one: "lastIndexOf s t = - 1 \<longleftrightarrow> \<not> sublist t s"
  unfolding lastIndexOf_def using occurrences_empty_iff [of s t]
  by (cases "rev (occurrences s t)") auto

lemma includes_str_sublist: "includes_str s t \<longleftrightarrow> sublist t s"
  by (simp add: includes_str_def indexOf_minus_one)

lemma sublist_single: "sublist [x] s \<longleftrightarrow> x \<in> set s"
  by (auto simp: sublist_def in_set_conv_decomp)

lemma slice_from_zero: "slice_from s 0 = s"
  by (simp add: slice_from_def slice_def)

lemma slice_zero_zero: "slice s 0 0 = []"
  by (simp add: slice_def)

section \<open>getPathInfo\<close>

text \<open>
  Claim C4. \<open>getPathInfo\<close> is a function of its argument alone, and for an input whose
  percent-decoded form is \<open>bucket/output/dir/sub/file.ext\<close> it returns the root file name
  \<open>file.ext\<close>, the base path \<open>bucket/output/dir/sub/\<close> and the local path
  \<open>dir/sub/\<close>.
\<close>

theorem getPathInfo_example:
  assumes "decodeURIComponent encodedURN = Inr ''bucket/output/dir/sub/file.ext''"
  shows "getPathInfo encodedURN =
           Inr \<lparr>urn = ''bucket/output/dir/sub/file.ext'', rootFileName = ''file.ext'',
                localPath = ''dir/sub/'', basePath = ''bucket/output/dir/sub/''\<rparr>"
proof -
  have a: "slice_from ''bucket/output/dir/sub/file.ext''
             (lastIndexOf ''bucket/output/dir/sub/file.ext'' ''/'' + 1) = ''file.ext''"
    by code_simp
  have b: "slice ''bucket/output/dir/sub/file.ext'' 0
             (lastIndexOf ''bucket/output/dir/sub/file.ext'' ''/'' + 1) = ''bucket/output/dir/sub/''"
    by code_simp
  have c: "replace_output_prefix
             (slice_from ''bucket/output/dir/sub/''
                (indexOf ''bucket/output/dir/sub/'' ''/'' + 1)) = ''dir/sub/''"
    by code_simp
  show ?thesis
    unfolding getPathInfo_def assms by (simp add: Let_def a b c)
qed

theorem getPathInfo_example_witness:
  "decodeURIComponent (Some ''bucket%2Foutput/dir/sub/file.ext'') = Inr ''bucket/output/dir/sub/file.ext''
   \<and> getPathInfo (Some ''bucket%2Foutput/dir/sub/file.ext'') =
           Inr \<lparr>urn = ''bucket/output/dir/sub/file.ext'', rootFileName = ''file.ext'',
                localPath = ''dir/sub/'', basePath = ''bucket/output/dir/sub/''\<rparr>"
proof -
  have h: "decodeURIComponent (Some ''bucket%2Foutput/dir/sub/file.ext'') = Inr ''bucket/output/dir/sub/file.ext''"
    by code_simp
  show ?thesis using h getPathInfo_example [OF h] by simp
qed

text \<open>
  Claim C10. For an input whose percent-decoded form has no \<open>/\<close>, \<open>getPathInfo\<close>
  returns without raising: the root file name is the whole decoded string, the base path
  and the local path are empty.
\<close>

theorem getPathInfo_no_slash:
  assumes "decodeURIComponent encodedURN = Inr u" and "CHR ''/'' \<notin> set u"
  shows "getPathInfo encodedURN =
           Inr \<lparr>urn = u, rootFileName = u, localPath = [], basePath = []\<rparr>"
proof -
  have l: "lastIndexOf u ''/'' = - 1"
    using assms(2) by (simp add: lastIndexOf_minus_one sublist_single)
  have i: "indexOf [] ''/'' = - 1"
    by (simp add: indexOf_minus_one)
  show ?thesis
    unfolding getPathInfo_def assms(1)
    by (simp add: Let_def l i slice_from_zero slice_zero_zero replace_output_prefix_def)
qed

theorem getPathInfo_no_slash_witness:
  "decodeURIComponent (Some ''model%20A.svf'') = Inr ''model A.svf''
   \<and> CHR ''/'' \<notin> set ''model A.svf''
   \<and> getPathInfo (Some ''model%20A.svf'') =
        Inr \<lparr>urn = ''model A.svf'', rootFileName = ''model A.svf'', localPath = [], basePath = []\<rparr>"
proof -
  have h: "decodeURIComponent (Some ''model%20A.svf'') = Inr ''model A.svf''"
    by code_simp
  have n: "CHR ''/'' \<notin> set ''model A.svf''" by simp
  show ?thesis using h n getPathInfo_no_slash [OF h n] by simp
qed

section \<open>parseManifest\<close>

text \<open>
  \<open>getPathInfo\<close> returns exactly when the \<open>urn\<close> decodes. Then \<open>parse\<close> appends,
  in document order, the descriptor of every allow-listed node of the subtree.
\<close>

lemma getPathInfo_Inr:
  "decodeURIComponent e = Inr u \<Longrightarrow> \<exists>p. getPathInfo e = Inr p \<and> pathinfo.urn p = u"
  by (simp add: getPathInfo_def Let_def)

lemma getPathInfo_urn:
  "getPathInfo e = Inr p \<Longrightarrow> decodeURIComponent e = Inr (pathinfo.urn p)"
  by (auto simp: getPathInfo_def Let_def split: sum.splits)

lemma parse_collects:
  "(\<forall>n \<in> set (nodes_of t). roles_includes (role n) \<longrightarrow> (\<exists>p. getPathInfo (node_urn n) = Inr p))
     \<Longrightarrow> parse t items =
           Inr (items @ map item_of_node (filter (\<lambda>n. roles_includes (role n)) (nodes_of t)))"
  "(\<forall>n \<in> set (nodes_of_list ts). roles_includes (role n) \<longrightarrow> (\<exists>p. getPathInfo (node_urn n) = Inr p))
     \<Longrightarrow> forEach_parse ts items =
           Inr (items @ map item_of_node (filter (\<lambda>n. roles_includes (role n)) (nodes_of_list ts)))"
proof (induction t items and ts items rule: parse_forEach_parse.induct)
  case (1 r g m u ch items)
  show ?case
  proof (cases "roles_includes r")
    case True
    with "1.prems" obtain p where p: "getPathInfo u = Inr p" by auto
    show ?thesis
    proof (cases ch)
      case None
      then show ?thesis using True p by (simp add: item_of_node_def)
    next
      case (Some cs)
      have "forEach_parse cs (items @ [make_item g m p]) =
              Inr ((items @ [make_item g m p])
                   @ map item_of_node (filter (\<lambda>n. roles_includes (role n)) (nodes_of_list cs)))"
        using "1.IH" "1.prems" True p Some by simp
      then show ?thesis using True p Some by (simp add: item_of_node_def)
    qed
  next
    case False
    show ?thesis
    proof (cases ch)
      case None
      then show ?thesis using False by simp
    next
      case (Some cs)
      have "forEach_parse cs items =
              Inr (items @ map item_of_node (filter (\<lambda>n. roles_includes (role n)) (nodes_of_list cs)))"
        using "1.IH" "1.prems" False Some by simp
      then show ?thesis using False Some by simp
    qed
  qed
next
  case (2 items)
  show ?case by simp
next
  case (3 c cs items)
  have a: "parse c items =
             Inr (items @ map item_of_node (filter (\<lambda>n. roles_includes (role n)) (nodes_of c)))"
    using "3.IH"(1) "3.prems" by simp
  have b: "forEach_parse cs (items @ map item_of_node (filter (\<lambda>n. roles_includes (role n)) (nodes_of c))) =
             Inr ((items @ map item_of_node (filter (\<lambda>n. roles_includes (role n)) (nodes_of c)))
                  @ map item_of_node (filter (\<lambda>n. roles_includes (role n)) (nodes_of_list cs)))"
    using "3.IH"(2) [OF a] "3.prems" by simp
  show ?case using a b by simp
qed

lemma parseManifest_collects:
  assumes "\<forall>n \<in> set (matching_nodes m). \<exists>p. getPathInfo (node_urn n) = Inr p"
  shows "parseManifest m = Inr (map item_of_node (matching_nodes m))"
proof -
  have "parse (Node None None None None (derivatives m)) [] =
          Inr ([] @ map item_of_node (filter (\<lambda>n. roles_includes (role n))
                                       (nodes_of (Node None None None None (derivatives m)))))"
    using assms
    by (intro parse_collects(1))
       (auto simp: matching_nodes_def manifest_nodes_def roles_includes_def split: option.splits)
  then show ?thesis
    by (simp add: parseManifest_def matching_nodes_def manifest_nodes_def roles_includes_def
             split: option.splits)
qed

text \<open>
  Claim C3, amended. For every manifest tree in which the \<open>urn\<close> of every allow-listed
  node percent-decodes, \<open>parseManifest\<close> returns a list whose length is the number of
  nodes, at any depth, whose role is in the allow-list of ten roles: the descriptors of
  these nodes in document order. A node outside the allow-list gives no descriptor and
  its children are still visited.
\<close>

theorem parseManifest_length:
  assumes "\<forall>n \<in> set (matching_nodes m). \<exists>u. decodeURIComponent (node_urn n) = Inr u"
  shows "\<exists>items. parseManifest m = Inr items
           \<and> length items = length (matching_nodes m)
           \<and> map guid items = map node_guid (matching_nodes m)
           \<and> map mime items = map node_mime (matching_nodes m)
           \<and> map (\<lambda>i. Inr (pathinfo.urn i)) items
               = map (\<lambda>n. decodeURIComponent (node_urn n)) (matching_nodes m)"
proof -
  have ok: "\<forall>n \<in> set (matching_nodes m). \<exists>p. getPathInfo (node_urn n) = Inr p"
    using assms getPathInfo_Inr by blast
  have u: "Inr (pathinfo.urn (item_of_node n)) = decodeURIComponent (node_urn n)"
    if "n \<in> set (matching_nodes m)" for n
  proof -
    from ok that obtain p where p: "getPathInfo (node_urn n) = Inr p" by blast
    then show ?thesis using getPathInfo_urn [OF p] by (simp add: item_of_node_def make_item_def)
  qed
  have "parseManifest m = Inr (map item_of_node (matching_nodes m))"
    using parseManifest_collects [OF ok] .
  moreover have "map guid (map item_of_node (matching_nodes m)) = map node_guid (matching_nodes m)"
    by (simp add: item_of_node_def make_item_def)
  moreover have "map mime (map item_of_node (matching_nodes m)) = map node_mime (matching_nodes m)"
    by (simp add: item_of_node_def make_item_def)
  moreover have "map (\<lambda>i. Inr (pathinfo.urn i)) (map item_of_node (matching_nodes m))
                   = map (\<lambda>n. decodeURIComponent (node_urn n)) (matching_nodes m)"
    using u by simp
  ultimately show ?thesis by simp
qed

theorem parseManifest_length_witness:
  "matching_nodes nested_manifest =
     [Node (Some ''graphics'') (Some ''g1'') (Some ''application/autodesk-svf'')
        (Some ''bucket%2Foutput/1/model.svf'') None,
      Node (Some ''thumbnail'') (Some ''g2'') (Some ''image/png'')
        (Some ''bucket/output/model.png'') (Some [])]
   \<and> decodeURIComponent (Some ''bucket%2Foutput/1/model.svf'') = Inr ''bucket/output/1/model.svf''
   \<and> decodeURIComponent (Some ''bucket/output/model.png'') = Inr ''bucket/output/model.png''
   \<and> (\<exists>items. parseManifest nested_manifest = Inr items \<and> length items = 2
         \<and> map guid items = [Some ''g1'', Some ''g2''])"
proof -
  have m: "matching_nodes nested_manifest =
             [Node (Some ''graphics'') (Some ''g1'') (Some ''application/autodesk-svf'')
                (Some ''bucket%2Foutput/1/model.svf'') None,
              Node (Some ''thumbnail'') (Some ''g2'') (Some ''image/png'')
                (Some ''bucket/output/model.png'') (Some [])]"
    by code_simp
  have d1: "decodeURIComponent (Some ''bucket%2Foutput/1/model.svf'') = Inr ''bucket/output/1/model.svf''"
    by code_simp
  have d2: "decodeURIComponent (Some ''bucket/output/model.png'') = Inr ''bucket/output/model.png''"
    by code_simp
  have h: "\<forall>n \<in> set (matching_nodes nested_manifest). \<exists>u. decodeURIComponent (node_urn n) = Inr u"
    by (simp add: m d1 d2)
  have "\<exists>items. parseManifest nested_manifest = Inr items \<and> length items = 2
         \<and> map guid items = [Some ''g1'', Some ''g2'']"
    using parseManifest_length [OF h] by (auto simp: m)
  with m d1 d2 show ?thesis by blast
qed

text \<open>
  Claim C3 as stated, for every manifest tree, fails: on a tree with one allow-listed
  node whose \<open>urn\<close> is \<open>bucket/output/100%.svf\<close>, \<open>decodeURIComponent\<close> throws and
  \<open>parseManifest\<close> returns no list.
\<close>

theorem parseManifest_malformed_urn:
  "parseManifest bad_manifest = Inl URIError \<and> length (matching_nodes bad_manifest) = 1"
  by code_simp

text \<open>
  Claim C6. For a manifest object without a \<open>derivatives\<close> field the resolver returns the
  empty list of descriptors and raises no error.
\<close>

theorem parseManifest_no_derivatives:
  assumes "derivatives m = None"
  shows "parseManifest m = Inr []"
  using assms by (simp add: parseManifest_def roles_includes_def)

theorem parseManifest_no_derivatives_witness:
  "derivatives \<lparr>derivatives = None\<rparr> = None \<and> parseManifest \<lparr>derivatives = None\<rparr> = Inr []"
proof -
  have h: "derivatives \<lparr>derivatives = None\<rparr> = None" by simp
  show ?thesis using h parseManifest_no_derivatives [OF h] by simp
qed

section \<open>The file enumerator\<close>

text \<open>
  Claim C5, amended. For a descriptor whose mime is \<open>application/autodesk-db\<close> the
  enumeration requests nothing from the network and returns a fixed list of six file
  names: the five companion files and the descriptor's own root file name.
\<close>

theorem enumerateFiles_db:
  assumes "mime it = Some ''application/autodesk-db''"
  shows "enumerateFiles svc accessToken it requested =
           (Inr [''objects_attrs.json.gz'', ''objects_vals.json.gz'', ''objects_offs.json.gz'',
                 ''objects_ids.json.gz'', ''objects_avs.json.gz'', rootFileName it], requested)
         \<and> length [''objects_attrs.json.gz'', ''objects_vals.json.gz'', ''objects_offs.json.gz'',
                   ''objects_ids.json.gz'', ''objects_avs.json.gz'', rootFileName it] = 6"
  using assms by (simp add: enumerateFiles_def)

theorem enumerateFiles_db_witness:
  "mime db_item = Some ''application/autodesk-db''
   \<and> enumerateFiles offline_service ''token'' db_item [] =
       (Inr [''objects_attrs.json.gz'', ''objects_vals.json.gz'', ''objects_offs.json.gz'',
             ''objects_ids.json.gz'', ''objects_avs.json.gz'', ''model.sdb''], [])"
proof -
  have h: "mime db_item = Some ''application/autodesk-db''" by (simp add: db_item_def)
  have r: "rootFileName db_item = ''model.sdb''" by (simp add: db_item_def)
  show ?thesis using h enumerateFiles_db [OF h, of offline_service "''token''" "[]"] by (simp add: r)
qed

text \<open>
  Claim C5 as stated, a list of seven file names, fails: the list of the example
  descriptor has six entries.
\<close>

theorem enumerateFiles_db_six_entries:
  "(case fst (enumerateFiles offline_service ''token'' db_item []) of
      Inl e \<Rightarrow> 0 | Inr fs \<Rightarrow> length fs) = 6"
  by (simp add: enumerateFiles_def db_item_def)

text \<open>Dropping the URIs \<open>uri\<close> with \<open>uri.indexOf('embed:/') !== -1\<close> drops those that contain \<open>embed:/\<close>.\<close>

lemma asset_files_sublist:
  "asset_files m =
     (case assets m of None \<Rightarrow> []
      | Some as \<Rightarrow> filter (\<lambda>uri. \<not> sublist ''embed:/'' uri) (map URI as))"
  by (simp add: asset_files_def indexOf_minus_one split: option.splits)

text \<open>
  Claim C7. For a descriptor whose mime is \<open>application/autodesk-svf\<close> and whose
  downloaded archive has a member \<open>manifest.json\<close>, the enumeration returns the URIs of
  the assets of that manifest without those that contain \<open>embed:/\<close>, and the empty list
  when the manifest has no \<open>assets\<close>. The assets \<open>a.png\<close> and \<open>embed:/b\<close> give exactly
  \<open>a.png\<close>.
\<close>

theorem enumerateFiles_svf:
  assumes "mime it = Some ''application/autodesk-svf''"
    and "svc (BaseUrl @ ''/derivativeservice/v2/derivatives/'' @ encodeURIComponent (pathinfo.urn it))
             (''Bearer '' @ accessToken) = Inr (ZipArchive pack)"
    and "pack ''manifest.json'' = Some (JsonObject m)"
  shows "fst (enumerateFiles svc accessToken it requested) =
           Inr (case assets m of
                  None \<Rightarrow> []
                | Some as \<Rightarrow> filter (\<lambda>uri. \<not> sublist ''embed:/'' uri) (map URI as))"
  using assms
  by (simp add: enumerateFiles_def getDerivativesSVF_def getDerivative_def Let_def new_zip_def
                JSON_parse_def asset_files_sublist)

theorem enumerateFiles_svf_witness:
  "mime svf_item = Some ''application/autodesk-svf''
   \<and> svf_service (BaseUrl @ ''/derivativeservice/v2/derivatives/'' @ encodeURIComponent (pathinfo.urn svf_item))
        (''Bearer '' @ ''token'') = Inr (ZipArchive svf_archive)
   \<and> svf_archive ''manifest.json''
       = Some (JsonObject \<lparr>assets = Some [\<lparr>URI = ''a.png''\<rparr>, \<lparr>URI = ''embed:/b''\<rparr>]\<rparr>)
   \<and> fst (enumerateFiles svf_service ''token'' svf_item []) = Inr [''a.png'']"
proof -
  have h1: "mime svf_item = Some ''application/autodesk-svf''" by (simp add: svf_item_def)
  have h2: "svf_service (BaseUrl @ ''/derivativeservice/v2/derivatives/'' @ encodeURIComponent (pathinfo.urn svf_item))
        (''Bearer '' @ ''token'') = Inr (ZipArchive svf_archive)" by (simp add: svf_service_def)
  have h3: "svf_archive ''manifest.json''
       = Some (JsonObject \<lparr>assets = Some [\<lparr>URI = ''a.png''\<rparr>, \<lparr>URI = ''embed:/b''\<rparr>]\<rparr>)"
    by (simp add: svf_archive_def)
  have s1: "\<not> sublist ''embed:/'' ''a.png''"
    using indexOf_minus_one [of "''a.png''" "''embed:/''"] by code_simp
  have s2: "sublist ''embed:/'' ''embed:/b''"
    using indexOf_minus_one [of "''embed:/b''" "''embed:/''"] by code_simp
  show ?thesis
    using h1 h2 h3
      enumerateFiles_svf [where it = svf_item and svc = svf_service and accessToken = "''token''"
        and pack = svf_archive and requested = "[]"
        and m = "\<lparr>assets = Some [\<lparr>URI = ''a.png''\<rparr>, \<lparr>URI = ''embed:/b''\<rparr>]\<rparr>", OF h1 h2 h3]
    by (simp add: s1 s2)
qed

section \<open>clearUrn\<close>

lemma fold_cache_delete:
  "fold cache_delete us c = filter (\<lambda>e. fst e \<notin> set us) c"
proof (induction us arbitrary: c)
  case Nil
  show ?case by simp
next
  case (Cons u us)
  have "filter (\<lambda>e. fst e \<notin> set us) (filter (\<lambda>e. fst e \<noteq> u) c)
          = filter (\<lambda>e. fst e \<notin> set (u # us)) c"
    by (induction c) auto
  then show ?case using Cons.IH [of "cache_delete u c"] by (simp add: cache_delete_def)
qed

text \<open>
  Claim C8. For every store and every identifier, \<open>clearUrn\<close> deletes exactly the
  entries whose URL contains the identifier, leaves every other entry as it was, and
  returns the deleted URLs; when no URL contains the identifier it returns the empty
  list and the store is unchanged.
\<close>

theorem clearUrn_exact:
  "fst (clearUrn u c) = filter (\<lambda>url. sublist u url) (cache_keys c)
   \<and> snd (clearUrn u c) = filter (\<lambda>e. \<not> sublist u (fst e)) c
   \<and> ((\<forall>url \<in> set (cache_keys c). \<not> sublist u url)
        \<longrightarrow> fst (clearUrn u c) = [] \<and> snd (clearUrn u c) = c)"
proof -
  have a: "fst (clearUrn u c) = filter (\<lambda>url. sublist u url) (cache_keys c)"
    by (simp add: clearUrn_def Let_def includes_str_sublist)
  have "snd (clearUrn u c) = filter (\<lambda>e. fst e \<notin> set (filter (\<lambda>url. sublist u url) (cache_keys c))) c"
    by (simp add: clearUrn_def Let_def includes_str_sublist fold_cache_delete)
  also have "\<dots> = filter (\<lambda>e. \<not> sublist u (fst e)) c"
    by (rule filter_cong) (auto simp: cache_keys_def)
  finally have b: "snd (clearUrn u c) = filter (\<lambda>e. \<not> sublist u (fst e)) c" .
  have "fst (clearUrn u c) = [] \<and> snd (clearUrn u c) = c"
    if "\<forall>url \<in> set (cache_keys c). \<not> sublist u url"
    using that unfolding a b by (auto simp: cache_keys_def filter_empty_conv filter_id_conv)
  with a b show ?thesis by blast
qed

theorem clearUrn_exact_witness:
  "fst (clearUrn ''dXJuOm1vZGVs'' example_cache)
     = [''https://developer.api.autodesk.com/derivativeservice/v2/manifest/dXJuOm1vZGVs'']
   \<and> snd (clearUrn ''dXJuOm1vZGVs'' example_cache)
       = [(''/index.html'', \<lparr>status = 200, vary = [], body = Bytes ''page''\<rparr>)]"
proof -
  have s1: "sublist ''dXJuOm1vZGVs''
              ''https://developer.api.autodesk.com/derivativeservice/v2/manifest/dXJuOm1vZGVs''"
    using includes_str_sublist
      [of "''https://developer.api.autodesk.com/derivativeservice/v2/manifest/dXJuOm1vZGVs''"
          "''dXJuOm1vZGVs''"]
    by code_simp
  have s2: "\<not> sublist ''dXJuOm1vZGVs'' ''/index.html''"
    using includes_str_sublist [of "''/index.html''" "''dXJuOm1vZGVs''"] by code_simp
  show ?thesis
    using clearUrn_exact [of "''dXJuOm1vZGVs''" example_cache] s1 s2
    by (simp add: example_cache_def cache_keys_def)
qed

section \<open>cacheUrn\<close>

text \<open>
  Every schedule gives an order of all the promises. The outcome of a promise and the
  contents of the store after it do not depend on what settled before.
\<close>

lemma completion_order_set: "set (completion_order sched n) = {0..<n}"
  by (auto simp: completion_order_def)


lemma map_of_filter_key:
  "map_of (filter (\<lambda>e. fst e \<noteq> k) c) x = (if x = k then None else map_of c x)"
  by (induction c) auto

lemma snd_fetch_put:
  "map_of (snd (fetch_put eng net options url c))
     = overlay net options {serialize eng url} (map_of c)"
proof
  fix k
  show "map_of (snd (fetch_put eng net options url c)) k
          = overlay net options {serialize eng url} (map_of c) k"
  proof (cases "net (serialize eng url) options")
    case (Inl e)
    then show ?thesis
      by (auto simp: fetch_put_def fetch_def overlay_def split: sum.splits)
  next
    case (Inr resp)
    then show ?thesis
      by (auto simp: fetch_put_def fetch_def overlay_def cache_put_def map_of_filter_key
                     map_add_def
               split: sum.splits option.splits)
  qed
qed

lemma overlay_overlay:
  "overlay net options K2 (overlay net options K1 m) = overlay net options (K1 \<union> K2) m"
  by (rule ext) (auto simp: overlay_def split: sum.splits)

lemma overlay_empty: "overlay net options {} m = m"
  by (rule ext) (auto simp: overlay_def split: sum.splits)


lemma snd_settle:
  "map_of (snd (settle eng net options fetches order c))
     = overlay net options ((\<lambda>i. serialize eng (fetches ! i)) ` set order) (map_of c)"
proof (induction order arbitrary: c)
  case Nil
  show ?case by (simp add: overlay_empty)
next
  case (Cons i order)
  have "map_of (snd (settle eng net options fetches (i # order) c))
          = overlay net options ((\<lambda>i. serialize eng (fetches ! i)) ` set order)
              (overlay net options {serialize eng (fetches ! i)} (map_of c))"
    using Cons.IH [of "snd (fetch_put eng net options (fetches ! i) c)"]
    by (simp add: split_beta snd_fetch_put)
  then show ?case by (simp add: overlay_overlay)
qed

lemma keys_of_order:
  assumes "set order = {0..<length fetches}"
  shows "(\<lambda>i. serialize eng (fetches ! i)) ` set order = serialize eng ` set fetches"
proof -
  have "set fetches = (\<lambda>i. fetches ! i) ` {0..<length fetches}"
    by (auto simp: in_set_conv_nth)
  then show ?thesis using assms by (simp add: image_image)
qed

lemma settle_single:
  "map_of (snd (settle eng net options [url] [0] c))
     = overlay net options {serialize eng url} (map_of c)"
  using snd_settle [of eng net options "[url]" "[0]" c] by simp







text \<open>The loops push the URLs that the design names.\<close>

lemma fold_push_files:
  "fold (\<lambda>file fs. fs @ [g file]) xs acc = acc @ map g xs"
  by (induction xs arbitrary: acc) auto

lemma push_derivatives_eq:
  "push_derivatives ds fetches =
     fetches @ concat (map (\<lambda>d. derivUrl d # map (fileUrl d) (files d)) ds)"
  by (induction ds arbitrary: fetches)
     (auto simp: push_derivatives_def push_derivative_def fold_push_files)

lemma push_derivatives_expected:
  "push_derivatives ds [baseUrl @ ''/manifest/'' @ u] = expected_urls u ds"
proof -
  have "(\<lambda>d. derivUrl d # map (fileUrl d) (files d))
          = (\<lambda>d. (''https://developer.api.autodesk.com/derivativeservice/v2/derivatives/''
                     @ encodeURIComponent (pathinfo.urn d))
                  # map (\<lambda>file.
                      ''https://developer.api.autodesk.com/derivativeservice/v2/derivatives/''
                        @ encodeURIComponent (basePath d @ file)) (files d))"
    by (rule ext) (simp add: derivUrl_def fileUrl_def baseUrl_def)
  then show ?thesis
    unfolding push_derivatives_eq expected_urls_def by (simp add: baseUrl_def)
qed

lemma pushed_array:
  assumes "net (serialize eng (''/api/models/'' @ u @ ''/files'')) None = Inr res"
    and "res_json eng res = Inr (DerivativeArray ds)"
  shows "pushed eng net u = expected_urls u ds"
  unfolding pushed_def
  by (simp only: assms sum.case json.case push_derivatives_expected)

text \<open>What a call of \<open>cacheUrn\<close> does to the state of the worker.\<close>

lemma cacheUrn_array:
  assumes f: "net (serialize eng (''/api/models/'' @ u @ ''/files'')) None = Inr res"
    and j: "res_json eng res = Inr (DerivativeArray ds)"
  shows "cacheUrn eng net sched u tok w =
           (case settle eng net (Some (''Bearer '' @ tok)) (expected_urls u ds)
                   (completion_order sched (length (expected_urls u ds))) (store w) of
              (rs, c) \<Rightarrow>
                (Promise_all (length (expected_urls u ds)) rs,
                 w\<lparr>store := c,
                   trace := trace w @ sent eng None [''/api/models/'' @ u @ ''/files'']
                                  @ sent eng (Some (''Bearer '' @ tok)) (expected_urls u ds)
                                  @ stored eng rs\<rparr>))"
  using f j
  by (simp add: cacheUrn_def fetch_def Let_def push_derivatives_expected [unfolded baseUrl_def, simplified]
                baseUrl_def split_beta)

lemma cacheUrn_store:
  "map_of (store (snd (cacheUrn eng net sched u tok w)))
     = overlay net (Some (''Bearer '' @ tok)) (serialize eng ` set (pushed eng net u))
         (map_of (store w))"
proof (cases "net (serialize eng (''/api/models/'' @ u @ ''/files'')) None")
  case (Inl e)
  then show ?thesis by (simp add: cacheUrn_def fetch_def pushed_def overlay_empty)
next
  case (Inr res)
  show ?thesis
  proof (cases "res_json eng res")
    case (Inl e)
    then show ?thesis using Inr by (simp add: cacheUrn_def fetch_def pushed_def overlay_empty)
  next
    case j: (Inr derivs)
    show ?thesis
    proof (cases derivs)
      case NotIterable
      then show ?thesis using Inr j
        by (simp add: cacheUrn_def fetch_def pushed_def Let_def split_beta settle_single
                 del: settle.simps)
    next
      case (DerivativeArray ds)
      have p: "pushed eng net u = expected_urls u ds"
        using Inr j DerivativeArray by (simp add: pushed_array)
      have k: "(\<lambda>i. serialize eng (expected_urls u ds ! i))
                 ` set (completion_order sched (length (expected_urls u ds)))
               = serialize eng ` set (expected_urls u ds)"
        by (rule keys_of_order) (rule completion_order_set)
      have R: "cacheUrn eng net sched u tok w =
           (case settle eng net (Some (''Bearer '' @ tok)) (expected_urls u ds)
                   (completion_order sched (length (expected_urls u ds))) (store w) of
              (rs, c) \<Rightarrow>
                (Promise_all (length (expected_urls u ds)) rs,
                 w\<lparr>store := c,
                   trace := trace w @ sent eng None [''/api/models/'' @ u @ ''/files'']
                                  @ sent eng (Some (''Bearer '' @ tok)) (expected_urls u ds)
                                  @ stored eng rs\<rparr>))"
        using Inr j DerivativeArray by (simp add: cacheUrn_array)
      show ?thesis
        unfolding R p by (simp add: split_beta snd_settle k)
    qed
  qed
qed





text \<open>
  Claim C9. With the network answering the same both times, the contents of the store
  (the response kept for every URL) after two calls of \<open>cacheUrn\<close> for a model in
  succession are the contents after one call, in whatever order the fetches of either
  call complete.
\<close>

theorem cacheUrn_idempotent:
  "map_of (store (snd (cacheUrn eng net sched2 u tok (snd (cacheUrn eng net sched1 u tok w)))))
     = map_of (store (snd (cacheUrn eng net sched1 u tok w)))"
  by (simp add: cacheUrn_store overlay_overlay)

theorem cacheUrn_idempotent_witness:
  "map_of (store (snd (cacheUrn example_engine example_network [] ''dXJuOm1vZGVs'' ''token''
            (snd (cacheUrn example_engine example_network [2, 1, 0] ''dXJuOm1vZGVs'' ''token''
                    example_worker)))))
     = map_of (store (snd (cacheUrn example_engine example_network [2, 1, 0] ''dXJuOm1vZGVs''
                             ''token'' example_worker)))"
  using cacheUrn_idempotent
          [of example_engine example_network "[]" "''dXJuOm1vZGVs''" "''token''" "[2, 1, 0]"
              example_worker]
  by simp

section \<open>messageAsync\<close>




text \<open>
  The case that the amended claim leaves open: the file list of the model \<open>broken\<close> is
  a JSON object, so \<open>for ... of\<close> throws after the promise of the manifest was pushed.
  The reply is the error of the loop, and the rejection of that promise, whose fetch
  fails with the expired token, is taken by no handler.
\<close>

theorem messageAsync_dangling_rejection:
  "posted (snd (messageAsync example_engine example_network []
            (example_event ''CACHE_URN'' ''broken'' ''expired'') example_worker))
     = [(7, Error ''TypeError: derivatives is not iterable'')]
   \<and> unhandled (snd (messageAsync example_engine example_network []
            (example_event ''CACHE_URN'' ''broken'' ''expired'') example_worker))
       = [''TypeError: Failed to fetch'']"
  by code_simp

end
